theory Spec2Isabelle
  imports Complex_Main "HOL-Library.Char_ord" "HOL-Library.List_Lexorder"
begin

section \<open>The ETL pipeline of \<open>etl_pipeline.py\<close>\<close>

text \<open>
  The pipeline reads a CSV file into a data frame (\<open>extract_data\<close>), cleans and
  aggregates it (\<open>transform_data\<close>), and writes the aggregate into one SQLite table
  (\<open>load_data\<close>); \<open>main\<close> runs the three in sequence.

  A data frame is the list of its rows, in row order. A cell that pandas shows as NaN
  (a missing value) is \<open>None\<close>.

  The \<open>product_id\<close> column is of one type \<open>'k\<close> with its own order: text (dtype
  \<open>object\<close>, compared lexicographically by character code as Python compares
  \<open>str\<close>) or integers (dtype \<open>int64\<close>, which \<open>read_csv\<close> chooses when every id is
  written in digits, compared numerically). A column that mixes the two is outside the
  model.

  A numeric cell is given by its exact value, which is a rational number for every
  finite \<open>int64\<close> and \<open>float64\<close>; the infinities of \<open>float64\<close> are outside the model.
  Comparing a cell with 0 is exact. Adding cells is not: an \<open>int64\<close> sum wraps around
  and a \<open>float64\<close> sum rounds, so the sum that \<open>groupby\<close> computes is a parameter
  \<open>column_sum\<close> of the transform.
\<close>

subsection \<open>Data\<close>

type_synonym timestamp = nat

text \<open>
  A cell of the \<open>amount\<close> column: the value of a number, or a \<open>str\<close>. Text
  occurs in a column of dtype \<open>object\<close> only; \<open>read_csv\<close> delivers such a column,
  every cell of it text, when one field of the column does not read as a number.
\<close>

datatype amount_value = Num rat | Text string

text \<open>
  One row with the five columns of the input. The types of the \<open>date\<close> and
  \<open>amount\<close> cells are parameters, because \<open>transform_data\<close> replaces both columns
  (\<open>pd.to_datetime\<close>, \<open>pd.to_numeric\<close>).
\<close>

record ('k, 'd, 'a) transaction =
  transaction_id :: "int option"
  product_id :: "'k option"
  date :: "'d option"
  amount :: "'a option"
  category :: "string option"

type_synonym 'k raw_transaction = "('k, string, amount_value) transaction"
type_synonym 'k clean_transaction = "('k, timestamp, rat) transaction"

text \<open>One row of the aggregate that \<open>transform_data\<close> returns.\<close>

record 'k product_revenue_summary =
  summary_product_id :: 'k
  total_revenue_usd :: rat
  processed_at :: timestamp

text \<open>The exceptions that the library calls of the pipeline raise.\<close>

datatype exn =
  FileNotFoundError
  | ParserError
  | TypeError
  | ValueError
  | OperationalError
  | DatabaseError

text \<open>What the pipeline prints, one constructor for each \<open>print\<close> of the source.\<close>

datatype 'k message =
  Generating_mock_data string
  | Mock_data_generated
  | Extract_start string
  | Read_records nat
  | Csv_not_found string
  | Extraction_error exn
  | Transform_start
  | Dropped_missing nat
  | Dropped_non_positive nat
  | Transformation_complete nat
  | Load_start string
  | Loaded_records nat string
  | Verification_results "('k \<times> rat) list"
  | Load_error exn
  | Run_complete
  | Fatal_error exn

subsection \<open>The transform: \<open>transform_data\<close>\<close>

text \<open>\<open>df.dropna()\<close>: a row goes when any of its cells is missing.\<close>

definition has_na :: "('k, 'd, 'a) transaction \<Rightarrow> bool" where
  "has_na r \<longleftrightarrow>
     transaction_id r = None \<or> product_id r = None \<or> date r = None
     \<or> amount r = None \<or> category r = None"

definition dropna :: "('k, 'd, 'a) transaction list \<Rightarrow> ('k, 'd, 'a) transaction list" where
  "dropna df = filter (\<lambda>r. \<not> has_na r) df"

text \<open>
  \<open>df_cleaned['amount'] > 0\<close>, cell by cell: a number is compared, a missing value
  compares false, and text against the integer 0 raises \<open>TypeError\<close>.
\<close>

fun gt_zero :: "amount_value option \<Rightarrow> exn + bool" where
  "gt_zero None = Inr False"
| "gt_zero (Some (Num a)) = Inr (0 < a)"
| "gt_zero (Some (Text s)) = Inl TypeError"

text \<open>A column operation that raises at the first cell that raises.\<close>

fun map_column :: "('a \<Rightarrow> exn + 'b) \<Rightarrow> 'a list \<Rightarrow> exn + 'b list" where
  "map_column f [] = Inr []"
| "map_column f (x # xs) =
     (case f x of
        Inl e \<Rightarrow> Inl e
      | Inr y \<Rightarrow> (case map_column f xs of Inl e \<Rightarrow> Inl e | Inr ys \<Rightarrow> Inr (y # ys)))"

text \<open>\<open>df[mask]\<close>: the rows whose mask entry is true.\<close>

definition select_rows :: "'r list \<Rightarrow> bool list \<Rightarrow> 'r list" where
  "select_rows df keep = map fst (filter snd (zip df keep))"

definition sign_filter :: "'k raw_transaction list \<Rightarrow> exn + 'k raw_transaction list" where
  "sign_filter df_cleaned =
     (case map_column gt_zero (map amount df_cleaned) of
        Inl e \<Rightarrow> Inl e
      | Inr keep \<Rightarrow> Inr (select_rows df_cleaned keep))"

text \<open>
  \<open>pd.to_datetime\<close> and \<open>pd.to_numeric\<close> on one cell. How pandas reads a date or a
  number from text is not part of the repository: both parsers are parameters. A
  missing value stays missing, text that does not parse raises \<open>ValueError\<close>.
\<close>

fun to_datetime :: "(string \<Rightarrow> timestamp option) \<Rightarrow> string option \<Rightarrow> exn + timestamp option"
where
  "to_datetime parse_date None = Inr None"
| "to_datetime parse_date (Some s) =
     (case parse_date s of None \<Rightarrow> Inl ValueError | Some d \<Rightarrow> Inr (Some d))"

fun to_numeric :: "(string \<Rightarrow> rat option) \<Rightarrow> amount_value option \<Rightarrow> exn + rat option" where
  "to_numeric parse_number None = Inr None"
| "to_numeric parse_number (Some (Num a)) = Inr (Some a)"
| "to_numeric parse_number (Some (Text s)) =
     (case parse_number s of None \<Rightarrow> Inl ValueError | Some a \<Rightarrow> Inr (Some a))"

text \<open>Assigning the converted columns: the rows keep their other cells.\<close>

definition set_columns ::
  "'k raw_transaction \<Rightarrow> timestamp option \<times> rat option \<Rightarrow> 'k clean_transaction" where
  "set_columns r da =
     \<lparr>transaction_id = transaction_id r, product_id = product_id r, date = fst da,
      amount = snd da, category = category r\<rparr>"

definition normalize_types ::
  "(string \<Rightarrow> timestamp option) \<Rightarrow> (string \<Rightarrow> rat option) \<Rightarrow> 'k raw_transaction list
   \<Rightarrow> exn + 'k clean_transaction list" where
  "normalize_types parse_date parse_number df_filtered =
     (case map_column (to_datetime parse_date) (map date df_filtered) of
        Inl e \<Rightarrow> Inl e
      | Inr dates \<Rightarrow>
          (case map_column (to_numeric parse_number) (map amount df_filtered) of
             Inl e \<Rightarrow> Inl e
           | Inr amounts \<Rightarrow> Inr (map2 set_columns df_filtered (zip dates amounts))))"

text \<open>
  \<open>groupby('product_id')['amount'].sum()\<close>. The rows are distributed to their
  groups in one pass: each amount is appended to the values of its key, the keys kept
  in ascending order of the column's type (\<open>sort=True\<close> is the default of
  \<open>groupby\<close>). A row with a missing key belongs to no group. A row with a missing
  amount belongs to its group and contributes no value (\<open>sum\<close> skips missing
  values). Then the values of each group are summed by \<open>column_sum\<close>, the sum of
  the column's dtype, in row order; \<open>reset_index\<close> turns the keys into a column.
\<close>

fun add_to_group ::
  "'k::linorder \<Rightarrow> rat list \<Rightarrow> ('k \<times> rat list) list \<Rightarrow> ('k \<times> rat list) list" where
  "add_to_group k new [] = [(k, new)]"
| "add_to_group k new ((k', vs) # groups) =
     (if k = k' then (k', vs @ new) # groups
      else if k < k' then (k, new) # (k', vs) # groups
      else (k', vs) # add_to_group k new groups)"

definition add_row ::
  "('k::linorder \<times> rat list) list \<Rightarrow> ('k, 'd, rat) transaction \<Rightarrow> ('k \<times> rat list) list"
where
  "add_row groups r =
     (case product_id r of
        None \<Rightarrow> groups
      | Some k \<Rightarrow> add_to_group k (case amount r of None \<Rightarrow> [] | Some a \<Rightarrow> [a]) groups)"

definition group_rows :: "('k::linorder, 'd, rat) transaction list \<Rightarrow> ('k \<times> rat list) list" where
  "group_rows df = foldl add_row [] df"

definition groupby_sum ::
  "(rat list \<Rightarrow> rat) \<Rightarrow> ('k::linorder, 'd, rat) transaction list \<Rightarrow> ('k \<times> rat) list" where
  "groupby_sum column_sum df = map (\<lambda>g. (fst g, column_sum (snd g))) (group_rows df)"

text \<open>
  The sum of an \<open>int64\<close> column: its cells are integers, and the sum wraps around
  silently into the range from \<open>- 2 ^ 63\<close> to \<open>2 ^ 63 - 1\<close>.
\<close>

definition wrap_int64 :: "int \<Rightarrow> int" where
  "wrap_int64 n = (n + 2 ^ 63) mod 2 ^ 64 - 2 ^ 63"

definition int64_sum :: "rat list \<Rightarrow> rat" where
  "int64_sum vs = of_int (wrap_int64 \<lfloor>sum_list vs\<rfloor>)"

text \<open>
  The sum of a column on which no addition wraps or rounds: what the sum of either
  dtype computes when every partial sum is a value of the dtype.
\<close>

definition exact_sum :: "rat list \<Rightarrow> rat" where
  "exact_sum vs = sum_list vs"

text \<open>The renamed sum column, with the \<open>processed_at\<close> column set to one value.\<close>

definition stamp :: "timestamp \<Rightarrow> 'k \<times> rat \<Rightarrow> 'k product_revenue_summary" where
  "stamp now g = \<lparr>summary_product_id = fst g, total_revenue_usd = snd g, processed_at = now\<rparr>"

text \<open>
  \<open>transform_data\<close> returns what it printed and either the exception that ended
  it or the aggregate. \<open>now\<close> is the value of \<open>datetime.now()\<close>.
\<close>

definition transform_data ::
  "(rat list \<Rightarrow> rat) \<Rightarrow> (string \<Rightarrow> timestamp option) \<Rightarrow> (string \<Rightarrow> rat option) \<Rightarrow> timestamp
   \<Rightarrow> 'k::linorder raw_transaction list
   \<Rightarrow> 'k message list \<times> (exn + 'k product_revenue_summary list)" where
  "transform_data column_sum parse_date parse_number now df =
     (let initial_count = length df;
          df_cleaned = dropna df;
          out1 = [Transform_start, Dropped_missing (initial_count - length df_cleaned)]
      in case sign_filter df_cleaned of
           Inl e \<Rightarrow> (out1, Inl e)
         | Inr df_filtered \<Rightarrow>
             (let out2 = out1 @ [Dropped_non_positive (length df_cleaned - length df_filtered)]
              in case normalize_types parse_date parse_number df_filtered of
                   Inl e \<Rightarrow> (out2, Inl e)
                 | Inr df_typed \<Rightarrow>
                     (let df_aggregated = map (stamp now) (groupby_sum column_sum df_typed)
                      in (out2 @ [Transformation_complete (length df_aggregated)],
                          Inr df_aggregated))))"

subsection \<open>The world outside the program\<close>

text \<open>
  A CSV file either reads as a table or makes \<open>pd.read_csv\<close> raise. A database
  file holds tables of summary rows; a path that no database was written to holds no
  table, and \<open>sqlite3.connect\<close> creates it.
\<close>

datatype 'k csv_file = Rows "'k raw_transaction list" | Unreadable exn

type_synonym 'k database = "string \<rightharpoonup> 'k product_revenue_summary list"

record 'k world =
  files :: "string \<rightharpoonup> 'k csv_file"
  databases :: "string \<Rightarrow> 'k database"
  open_connections :: "string list"
  stdout :: "'k message list"
  clock :: timestamp

definition print :: "'k message \<Rightarrow> 'k world \<Rightarrow> 'k world" where
  "print m w = w\<lparr>stdout := stdout w @ [m]\<rparr>"

definition CSV_FILE :: string where
  "CSV_FILE = ''sales_data.csv''"

definition DB_FILE :: string where
  "DB_FILE = ''analytics_db.sqlite''"

definition TABLE_NAME :: string where
  "TABLE_NAME = ''product_monthly_revenue''"

subsection \<open>\<open>generate_mock_data\<close>\<close>

text \<open>
  The frame has the text ids \<open>P101\<close> to \<open>P105\<close> and a \<open>float64\<close> amount column (one
  amount is missing). The literals 15.50, 20.00, - 10.00 and 5.00 are values of
  \<open>float64\<close>; the literal 50.99 denotes the nearest one.
\<close>

definition float64_50_99 :: rat where
  "float64_50_99 = 7176204531238175 / 2 ^ 47"

definition mock_row ::
  "int \<Rightarrow> 'k \<Rightarrow> string \<Rightarrow> rat option \<Rightarrow> string \<Rightarrow> 'k raw_transaction" where
  "mock_row i p d a c =
     \<lparr>transaction_id = Some i, product_id = Some p, date = Some d,
      amount = map_option Num a, category = Some c\<rparr>"

definition mock_data :: "string raw_transaction list" where
  "mock_data =
     [mock_row 1 ''P101'' ''2024-09-01'' (Some 15.50) ''Gadget'',
      mock_row 2 ''P102'' ''2024-09-01'' (Some 20.00) ''Food'',
      mock_row 3 ''P101'' ''2024-09-02'' (Some 15.50) ''Gadget'',
      mock_row 4 ''P103'' ''2024-09-02'' (Some float64_50_99) ''Service'',
      mock_row 5 ''P102'' ''2024-09-03'' (Some 20.00) ''Food'',
      mock_row 6 ''P104'' ''2024-09-03'' (Some (- 10.00)) ''Refund'',
      mock_row 7 ''P101'' ''2024-09-04'' None ''Gadget'',
      mock_row 8 ''P103'' ''2024-09-04'' (Some float64_50_99) ''Service'',
      mock_row 9 ''P105'' ''2024-09-05'' (Some 5.00) ''Book'',
      mock_row 10 ''P102'' ''2024-09-05'' (Some 20.00) ''Food'']"

definition generate_mock_data :: "string world \<Rightarrow> string world" where
  "generate_mock_data w =
     (let w1 = print (Generating_mock_data CSV_FILE) w;
          w2 = w1\<lparr>files := (files w1)(CSV_FILE \<mapsto> Rows mock_data)\<rparr>
      in print Mock_data_generated w2)"

subsection \<open>The extractor: \<open>extract_data\<close>\<close>

definition read_csv :: "'k world \<Rightarrow> string \<Rightarrow> exn + 'k raw_transaction list" where
  "read_csv w path =
     (case files w path of
        None \<Rightarrow> Inl FileNotFoundError
      | Some (Unreadable e) \<Rightarrow> Inl e
      | Some (Rows rows) \<Rightarrow> Inr rows)"

text \<open>
  Both handlers print and return \<open>None\<close>; \<open>except FileNotFoundError\<close> comes first.
\<close>

definition extract_data ::
  "string \<Rightarrow> 'k world \<Rightarrow> 'k world \<times> 'k raw_transaction list option" where
  "extract_data csv_file_path w =
     (let w1 = print (Extract_start csv_file_path) w
      in case read_csv w1 csv_file_path of
           Inr df \<Rightarrow> (print (Read_records (length df)) w1, Some df)
         | Inl e \<Rightarrow>
             (if e = FileNotFoundError then (print (Csv_not_found csv_file_path) w1, None)
              else (print (Extraction_error e) w1, None)))"

subsection \<open>The loader: \<open>load_data\<close>\<close>

text \<open>
  Whether a call into SQLite raises is decided outside the program (a directory
  that does not exist, a locked or read-only file, a table name that the unquoted
  verification query cannot parse): \<open>sql_fault\<close> names the call that raises, if one
  does. When \<open>to_sql\<close> raises, the table holds what the library left there, which
  the fault carries.
\<close>

datatype 'k sql_fault =
  No_fault
  | Connect_fails exn
  | To_sql_fails exn "'k product_revenue_summary list option"
  | Read_sql_fails exn

definition sqlite3_connect :: "'k sql_fault \<Rightarrow> string \<Rightarrow> 'k world \<Rightarrow> exn + 'k world" where
  "sqlite3_connect fault db_file_path w =
     (case fault of
        Connect_fails e \<Rightarrow> Inl e
      | _ \<Rightarrow> Inr (w\<lparr>open_connections := db_file_path # open_connections w\<rparr>))"

definition set_table ::
  "string \<Rightarrow> string \<Rightarrow> 'k product_revenue_summary list option \<Rightarrow> 'k world \<Rightarrow> 'k world"
where
  "set_table db_file_path table_name content w =
     w\<lparr>databases := (databases w)(db_file_path := (databases w db_file_path)(table_name := content))\<rparr>"

text \<open>\<open>df.to_sql(table_name, conn, if_exists='replace', index=False)\<close>.\<close>

definition to_sql ::
  "'k sql_fault \<Rightarrow> 'k product_revenue_summary list \<Rightarrow> string \<Rightarrow> string \<Rightarrow> 'k world
   \<Rightarrow> 'k world \<times> exn option" where
  "to_sql fault df db_file_path table_name w =
     (case fault of
        To_sql_fails e left \<Rightarrow> (set_table db_file_path table_name left w, Some e)
      | _ \<Rightarrow> (set_table db_file_path table_name (Some df) w, None))"

text \<open>\<open>SELECT product_id, total_revenue_usd FROM table_name\<close>.\<close>

definition read_sql_query ::
  "'k sql_fault \<Rightarrow> string \<Rightarrow> string \<Rightarrow> 'k world \<Rightarrow> exn + ('k \<times> rat) list" where
  "read_sql_query fault db_file_path table_name w =
     (case fault of
        Read_sql_fails e \<Rightarrow> Inl e
      | _ \<Rightarrow>
          (case databases w db_file_path table_name of
             None \<Rightarrow> Inl DatabaseError
           | Some rows \<Rightarrow> Inr (map (\<lambda>r. (summary_product_id r, total_revenue_usd r)) rows)))"

definition close :: "string \<Rightarrow> 'k world \<Rightarrow> 'k world" where
  "close db_file_path w = w\<lparr>open_connections := remove1 db_file_path (open_connections w)\<rparr>"

text \<open>
  The whole body is in one \<open>try\<close>; the handler prints the exception and the function
  returns. \<open>conn.close()\<close> is the last statement of the \<open>try\<close> block.
\<close>

definition load_data ::
  "'k sql_fault \<Rightarrow> 'k product_revenue_summary list \<Rightarrow> string \<Rightarrow> string \<Rightarrow> 'k world
   \<Rightarrow> 'k world" where
  "load_data fault df db_file_path table_name w =
     (let w1 = print (Load_start db_file_path) w
      in case sqlite3_connect fault db_file_path w1 of
           Inl e \<Rightarrow> print (Load_error e) w1
         | Inr w2 \<Rightarrow>
             (case to_sql fault df db_file_path table_name w2 of
                (w3, Some e) \<Rightarrow> print (Load_error e) w3
              | (w3, None) \<Rightarrow>
                  (let w4 = print (Loaded_records (length df) table_name) w3
                   in case read_sql_query fault db_file_path table_name w4 of
                        Inl e \<Rightarrow> print (Load_error e) w4
                      | Inr verification_df \<Rightarrow>
                          close db_file_path (print (Verification_results verification_df) w4))))"

subsection \<open>The driver: \<open>main\<close>\<close>

text \<open>
  \<open>extract_data\<close> and \<open>load_data\<close> catch their own exceptions, so the handler of
  \<open>main\<close> is reached from \<open>transform_data\<close> only. The file that
  \<open>generate_mock_data\<close> writes has text ids, so \<open>main\<close> is stated for machines whose
  files have text ids; \<open>transform_data\<close> itself is stated for both kinds of ids.
\<close>

definition main ::
  "(rat list \<Rightarrow> rat) \<Rightarrow> (string \<Rightarrow> timestamp option) \<Rightarrow> (string \<Rightarrow> rat option)
   \<Rightarrow> string sql_fault \<Rightarrow> string world \<Rightarrow> string world" where
  "main column_sum parse_date parse_number fault w =
     (let w0 = (if files w CSV_FILE = None then generate_mock_data w else w);
          (w1, sales_df) = extract_data CSV_FILE w0
      in case sales_df of
           None \<Rightarrow> w1
         | Some df \<Rightarrow>
             (let (out, result) =
                    transform_data column_sum parse_date parse_number (clock w1) df;
                  w2 = w1\<lparr>stdout := stdout w1 @ out\<rparr>
              in case result of
                   Inl e \<Rightarrow> print (Fatal_error e) w2
                 | Inr analytics_df \<Rightarrow>
                     print Run_complete (load_data fault analytics_df DB_FILE TABLE_NAME w2)))"

text \<open>A machine with no files, no databases and nothing printed yet.\<close>

definition initial_world :: "'k world" where
  "initial_world =
     \<lparr>files = Map.empty, databases = (\<lambda>_. Map.empty), open_connections = [], stdout = [],
      clock = 0\<rparr>"

subsection \<open>Auxiliary notions for the proofs\<close>



subsection \<open>Parsers for the examples\<close>

text \<open>One parser reads every text as a date, the other reads no text as a number.\<close>

definition accept_all_dates :: "string \<Rightarrow> timestamp option" where
  "accept_all_dates s = Some 0"

definition reject_all_numbers :: "string \<Rightarrow> rat option" where
  "reject_all_numbers s = None"

subsection \<open>Inputs for the examples\<close>

text \<open>Three rows that no filter lets through: a refund, a missing amount and a zero.\<close>

definition refund_rows :: "string raw_transaction list" where
  "refund_rows =
     [mock_row 6 ''P104'' ''2024-09-03'' (Some (- 10.00)) ''Refund'',
      mock_row 7 ''P101'' ''2024-09-04'' None ''Gadget'',
      mock_row 11 ''P102'' ''2024-09-05'' (Some 0) ''Food'']"

text \<open>A row whose only missing cell is its category.\<close>

definition uncategorised_row :: "string raw_transaction" where
  "uncategorised_row =
     \<lparr>transaction_id = Some 1, product_id = Some ''P101'', date = Some ''2024-09-01'',
      amount = Some (Num 5), category = None\<rparr>"



text \<open>A complete row whose amount is text.\<close>

definition text_amount_row :: "string raw_transaction" where
  "text_amount_row =
     \<lparr>transaction_id = Some 1, product_id = Some ''P101'', date = Some ''2024-09-01'',
      amount = Some (Text ''abc''), category = Some ''Gadget''\<rparr>"

text \<open>The rows of the mock data that pass both filters, and the aggregate of the mock data:
  in each group every partial sum is a value of \<open>float64\<close> (a value added to itself, or
  small multiples of 20), so no addition rounds.\<close>

definition mock_filtered :: "string raw_transaction list" where
  "mock_filtered =
     [mock_row 1 ''P101'' ''2024-09-01'' (Some 15.50) ''Gadget'',
      mock_row 2 ''P102'' ''2024-09-01'' (Some 20.00) ''Food'',
      mock_row 3 ''P101'' ''2024-09-02'' (Some 15.50) ''Gadget'',
      mock_row 4 ''P103'' ''2024-09-02'' (Some float64_50_99) ''Service'',
      mock_row 5 ''P102'' ''2024-09-03'' (Some 20.00) ''Food'',
      mock_row 8 ''P103'' ''2024-09-04'' (Some float64_50_99) ''Service'',
      mock_row 9 ''P105'' ''2024-09-05'' (Some 5.00) ''Book'',
      mock_row 10 ''P102'' ''2024-09-05'' (Some 20.00) ''Food'']"

definition mock_summary :: "timestamp \<Rightarrow> string product_revenue_summary list" where
  "mock_summary now =
     [\<lparr>summary_product_id = ''P101'', total_revenue_usd = 31, processed_at = now\<rparr>,
      \<lparr>summary_product_id = ''P102'', total_revenue_usd = 60, processed_at = now\<rparr>,
      \<lparr>summary_product_id = ''P103'', total_revenue_usd = 2 * float64_50_99, processed_at = now\<rparr>,
      \<lparr>summary_product_id = ''P105'', total_revenue_usd = 5, processed_at = now\<rparr>]"

text \<open>Two rows whose text ids first appear in descending order.\<close>

definition unsorted_rows :: "string raw_transaction list" where
  "unsorted_rows =
     [mock_row 1 ''P2'' ''2024-09-01'' (Some 1) ''Food'',
      mock_row 2 ''P10'' ''2024-09-01'' (Some 2) ''Food'']"

text \<open>Two rows with the integer ids 10 and 2, as \<open>read_csv\<close> delivers a \<open>product_id\<close> column
  written in digits.\<close>

definition integer_id_rows :: "int raw_transaction list" where
  "integer_id_rows =
     [mock_row 1 10 ''2024-09-01'' (Some 1) ''Food'',
      mock_row 2 2 ''2024-09-01'' (Some 2) ''Food'']"

text \<open>A machine whose input file exists and cannot be parsed.\<close>

definition bad_csv_world :: "string world" where
  "bad_csv_world = initial_world\<lparr>files := [CSV_FILE \<mapsto> Unreadable ParserError]\<rparr>"

section \<open>Lemmas\<close>

lemma map_column_Inr_iff:
  "map_column f xs = Inr ys \<longleftrightarrow> list_all2 (\<lambda>x y. f x = Inr y) xs ys"
proof (induction xs arbitrary: ys)
  case Nil
  then show ?case by auto
next
  case (Cons x xs)
  show ?case
    by (cases ys; cases "f x"; cases "map_column f xs") (auto simp: Cons.IH [symmetric])
qed

lemma map_column_Inl_iff:
  "(\<exists>e. map_column f xs = Inl e) \<longleftrightarrow> (\<exists>x\<in>set xs. \<exists>e. f x = Inl e)"
  by (induction xs) (auto split: sum.splits)

lemma select_rows_gt_zero:
  "list_all2 (\<lambda>x y. gt_zero x = Inr y) (map amount df) keep
   \<Longrightarrow> select_rows df keep = filter (\<lambda>r. gt_zero (amount r) = Inr True) df"
proof (induction df arbitrary: keep)
  case Nil
  then show ?case by (simp add: select_rows_def)
next
  case (Cons r df)
  then obtain b bs where keep: "keep = b # bs" and b: "gt_zero (amount r) = Inr b"
    and bs: "list_all2 (\<lambda>x y. gt_zero x = Inr y) (map amount df) bs"
    by (auto simp: list_all2_Cons1)
  from Cons.IH [OF bs] have "select_rows df bs = filter (\<lambda>r. gt_zero (amount r) = Inr True) df" .
  with keep b show ?case by (simp add: select_rows_def)
qed

lemma sign_filter_Inr:
  "sign_filter df = Inr filt \<Longrightarrow> filt = filter (\<lambda>r. gt_zero (amount r) = Inr True) df"
  by (auto simp: sign_filter_def map_column_Inr_iff select_rows_gt_zero split: sum.splits)

lemma sign_filter_Inr_no_text:
  "sign_filter df = Inr filt \<Longrightarrow> r \<in> set df \<Longrightarrow> amount r \<noteq> Some (Text s)"
proof
  assume ok: "sign_filter df = Inr filt" and r: "r \<in> set df" and t: "amount r = Some (Text s)"
  from r t have "\<exists>x\<in>set (map amount df). \<exists>e. gt_zero x = Inl e" by force
  then obtain e where "map_column gt_zero (map amount df) = Inl e"
    using map_column_Inl_iff [of gt_zero "map amount df"] by blast
  with ok show False by (simp add: sign_filter_def)
qed

lemma gt_zero_True_iff: "gt_zero c = Inr True \<longleftrightarrow> (\<exists>a. c = Some (Num a) \<and> 0 < a)"
  by (cases c rule: gt_zero.cases) auto

lemma sign_filter_Inl_iff:
  "(\<exists>e. sign_filter df = Inl e) \<longleftrightarrow> (\<exists>r\<in>set df. \<exists>s. amount r = Some (Text s))"
proof -
  have "(\<exists>e. sign_filter df = Inl e) \<longleftrightarrow> (\<exists>e. map_column gt_zero (map amount df) = Inl e)"
    by (auto simp: sign_filter_def split: sum.splits)
  also have "\<dots> \<longleftrightarrow> (\<exists>x\<in>set (map amount df). \<exists>e. gt_zero x = Inl e)"
    by (rule map_column_Inl_iff)
  also have "\<dots> \<longleftrightarrow> (\<exists>r\<in>set df. \<exists>s. amount r = Some (Text s))"
  proof -
    have "(\<exists>e. gt_zero c = Inl e) \<longleftrightarrow> (\<exists>s. c = Some (Text s))" for c
      by (cases c rule: gt_zero.cases) auto
    then show ?thesis by auto
  qed
  finally show ?thesis .
qed

lemma sign_filter_Inl_TypeError: "sign_filter df = Inl e \<Longrightarrow> e = TypeError"
proof -
  have "map_column gt_zero cs = Inl e \<Longrightarrow> e = TypeError" for cs
  proof (induction cs)
    case Nil then show ?case by simp
  next
    case (Cons c cs)
    then show ?case by (cases c rule: gt_zero.cases) (auto split: sum.splits)
  qed
  then show "sign_filter df = Inl e \<Longrightarrow> e = TypeError"
    by (auto simp: sign_filter_def split: sum.splits)
qed

lemma set_add_to_group: "fst ` set (add_to_group k new groups) = insert k (fst ` set groups)"
proof -
  have "set (map fst (add_to_group k new groups)) = insert k (set (map fst groups))"
  proof (induction groups)
    case Nil
    then show ?case by simp
  next
    case (Cons g groups)
    obtain k' vs where "g = (k', vs)" by (cases g)
    with Cons.IH show ?case by (simp add: insert_commute)
  qed
  then show ?thesis by simp
qed

lemma sorted_add_to_group:
  "sorted_wrt (<) (map fst groups) \<Longrightarrow> sorted_wrt (<) (map fst (add_to_group k new groups))"
proof (induction groups)
  case Nil
  then show ?case by simp
next
  case (Cons g groups)
  obtain k' vs where g: "g = (k', vs)" by (cases g)
  from Cons.prems g have below: "\<forall>x\<in>fst ` set groups. k' < x"
    and rest: "sorted_wrt (<) (map fst groups)" by auto
  show ?case
  proof (cases "k = k'")
    case True
    with Cons.prems g show ?thesis by simp
  next
    case False
    show ?thesis
    proof (cases "k < k'")
      case True
      with Cons.prems g \<open>k \<noteq> k'\<close> show ?thesis by auto
    next
      case False
      with \<open>k \<noteq> k'\<close> have "k' < k" by simp
      with below have "\<forall>x\<in>fst ` set (add_to_group k new groups). k' < x"
        by (simp add: set_add_to_group)
      with Cons.IH [OF rest] g \<open>k \<noteq> k'\<close> \<open>\<not> k < k'\<close> show ?thesis by simp
    qed
  qed
qed


lemma sorted_add_row:
  "sorted_wrt (<) (map fst groups) \<Longrightarrow> sorted_wrt (<) (map fst (add_row groups r))"
  by (simp add: add_row_def sorted_add_to_group split: option.splits)

lemma sorted_foldl_add_row:
  "sorted_wrt (<) (map fst groups) \<Longrightarrow> sorted_wrt (<) (map fst (foldl add_row groups df))"
  by (induction df arbitrary: groups) (simp_all add: sorted_add_row)

lemma set_foldl_add_row:
  "fst ` set (foldl add_row groups df) = fst ` set groups \<union> {k. Some k \<in> product_id ` set df}"
proof (induction df arbitrary: groups)
  case Nil
  then show ?case by simp
next
  case (Cons r df)
  have "fst ` set (add_row groups r) = fst ` set groups \<union> {k. Some k = product_id r}"
    by (auto simp: add_row_def set_add_to_group split: option.splits)
  with Cons.IH [of "add_row groups r"] show ?case by auto
qed



lemma map_fst_groupby_sum: "map fst (groupby_sum column_sum df) = map fst (group_rows df)"
  by (simp add: groupby_sum_def comp_def)

lemma sorted_groupby_sum: "sorted_wrt (<) (map fst (groupby_sum column_sum df))"
  by (simp add: map_fst_groupby_sum group_rows_def sorted_foldl_add_row)

lemma keys_groupby_sum:
  "fst ` set (groupby_sum column_sum df) = {k. Some k \<in> product_id ` set df}"
proof -
  have "fst ` set (groupby_sum column_sum df) = set (map fst (groupby_sum column_sum df))"
    by simp
  also have "\<dots> = fst ` set (group_rows df)"
    by (simp only: map_fst_groupby_sum set_map)
  also have "\<dots> = {k. Some k \<in> product_id ` set df}"
    by (simp add: group_rows_def set_foldl_add_row)
  finally show ?thesis .
qed

lemma distinct_groupby_sum: "distinct (map fst (groupby_sum column_sum df))"
  using sorted_groupby_sum [of column_sum df] by (simp add: strict_sorted_iff)


lemma transform_data_Inr_iff:
  "snd (transform_data column_sum parse_date parse_number now df) = Inr out \<longleftrightarrow>
   (\<exists>df_filtered df_typed.
      sign_filter (dropna df) = Inr df_filtered
      \<and> normalize_types parse_date parse_number df_filtered = Inr df_typed
      \<and> out = map (stamp now) (groupby_sum column_sum df_typed))"
  by (auto simp: transform_data_def Let_def split: sum.splits)

lemma list_all2_map2_zip:
  assumes "list_all2 P xs ys" and "list_all2 Q xs zs"
  shows "list_all2 (\<lambda>x c. \<exists>y z. P x y \<and> Q x z \<and> c = f x (y, z)) xs (map2 f xs (zip ys zs))"
  using assms
proof (induction xs arbitrary: ys zs)
  case Nil
  then show ?case by simp
next
  case (Cons x xs)
  from Cons.prems obtain y ys' z zs' where "ys = y # ys'" "zs = z # zs'" "P x y" "Q x z"
    "list_all2 P xs ys'" "list_all2 Q xs zs'"
    by (auto simp: list_all2_Cons1)
  with Cons.IH [of ys' zs'] show ?case by auto
qed

lemma normalize_types_Inr:
  assumes "normalize_types parse_date parse_number df_filtered = Inr df_typed"
  shows "list_all2 (\<lambda>r c. product_id c = product_id r
           \<and> to_datetime parse_date (date r) = Inr (date c)
           \<and> to_numeric parse_number (amount r) = Inr (amount c)) df_filtered df_typed"
proof -
  from assms obtain dates amounts
    where d: "map_column (to_datetime parse_date) (map date df_filtered) = Inr dates"
      and a: "map_column (to_numeric parse_number) (map amount df_filtered) = Inr amounts"
      and t: "df_typed = map2 set_columns df_filtered (zip dates amounts)"
    by (auto simp: normalize_types_def split: sum.splits)
  from d have d': "list_all2 (\<lambda>r y. to_datetime parse_date (date r) = Inr y) df_filtered dates"
    by (simp add: map_column_Inr_iff list_all2_map1)
  from a have a': "list_all2 (\<lambda>r z. to_numeric parse_number (amount r) = Inr z) df_filtered amounts"
    by (simp add: map_column_Inr_iff list_all2_map1)
  from list_all2_map2_zip [OF d' a', of set_columns] t
  have "list_all2 (\<lambda>r c. \<exists>y z. to_datetime parse_date (date r) = Inr y
          \<and> to_numeric parse_number (amount r) = Inr z \<and> c = set_columns r (y, z))
        df_filtered df_typed" by simp
  then show ?thesis
    by (rule list_all2_mono) (auto simp: set_columns_def)
qed

lemma normalize_types_length:
  "normalize_types parse_date parse_number df_filtered = Inr df_typed
   \<Longrightarrow> length df_typed = length df_filtered"
  by (drule normalize_types_Inr) (simp add: list_all2_lengthD)

lemma normalize_types_product_id:
  assumes "normalize_types parse_date parse_number df_filtered = Inr df_typed"
  shows "map product_id df_typed = map product_id df_filtered"
proof -
  have "list_all2 (\<lambda>r c. product_id c = product_id r) df_filtered df_typed"
    by (rule list_all2_mono [OF normalize_types_Inr [OF assms]]) simp
  then show ?thesis
    by (induction rule: list_all2_induct) simp_all
qed


lemma sign_filter_amounts:
  assumes "sign_filter df = Inr df_filtered" and "r \<in> set df_filtered"
  shows "\<exists>a. amount r = Some (Num a) \<and> 0 < a"
  using assms by (auto simp: gt_zero_True_iff dest!: sign_filter_Inr)

lemma sign_filter_subset:
  "sign_filter df = Inr df_filtered \<Longrightarrow> set df_filtered \<subseteq> set df"
  by (auto dest!: sign_filter_Inr)

lemma map_stamp_product_id: "map summary_product_id (map (stamp now) groups) = map fst groups"
  by (simp add: stamp_def comp_def)

lemma filtered_rows:
  assumes "sign_filter (dropna df) = Inr df_filtered"
  shows "df_filtered =
    filter (\<lambda>r. \<not> has_na r \<and> (\<exists>a. amount r = Some (Num a) \<and> 0 < a)) df"
proof -
  have "df_filtered = filter (\<lambda>r. gt_zero (amount r) = Inr True) (dropna df)"
    using assms by (rule sign_filter_Inr)
  then show ?thesis by (simp add: dropna_def gt_zero_True_iff)
qed




lemma sign_filter_total_cases:
  "(\<exists>df_filtered. sign_filter df = Inr df_filtered) \<or> sign_filter df = Inl TypeError"
  by (cases "sign_filter df") (auto dest: sign_filter_Inl_TypeError)

lemma normalize_types_Nil: "normalize_types parse_date parse_number [] = Inr []"
  by (simp add: normalize_types_def)

lemma groupby_sum_Nil: "groupby_sum column_sum [] = []"
  by (simp add: groupby_sum_def group_rows_def)

lemmas transform_defs =
  transform_data_def dropna_def has_na_def sign_filter_def select_rows_def
  normalize_types_def set_columns_def groupby_sum_def group_rows_def add_row_def stamp_def
  accept_all_dates_def reject_all_numbers_def mock_row_def exact_sum_def float64_50_99_def

lemma mock_run:
  "snd (transform_data exact_sum accept_all_dates reject_all_numbers 0 mock_data)
     = Inr (mock_summary 0)"
  by (simp add: transform_defs mock_data_def mock_summary_def)

lemma mock_sign_filter: "sign_filter (dropna mock_data) = Inr mock_filtered"
  by (simp add: transform_defs mock_data_def mock_filtered_def)



lemma normalize_types_rows:
  assumes "normalize_types parse_date parse_number df_filtered = Inr df_typed"
  shows "map transaction_id df_typed = map transaction_id df_filtered
    \<and> map category df_typed = map category df_filtered"
proof -
  from assms obtain dates amounts
    where d: "map_column (to_datetime parse_date) (map date df_filtered) = Inr dates"
      and a: "map_column (to_numeric parse_number) (map amount df_filtered) = Inr amounts"
      and t: "df_typed = map2 set_columns df_filtered (zip dates amounts)"
    by (auto simp: normalize_types_def split: sum.splits)
  from d have d': "list_all2 (\<lambda>r y. True) df_filtered dates"
    by (simp add: map_column_Inr_iff list_all2_map1 list_all2_conv_all_nth)
  from a have a': "list_all2 (\<lambda>r z. True) df_filtered amounts"
    by (simp add: map_column_Inr_iff list_all2_map1 list_all2_conv_all_nth)
  from list_all2_map2_zip [OF d' a', of set_columns] t
  have "list_all2 (\<lambda>r c. \<exists>y z. c = set_columns r (y, z)) df_filtered df_typed" by simp
  then have "list_all2 (\<lambda>r c. transaction_id c = transaction_id r \<and> category c = category r)
      df_filtered df_typed"
    by (rule list_all2_mono) (auto simp: set_columns_def)
  then show ?thesis
    by (induction rule: list_all2_induct) simp_all
qed

lemma to_numeric_survivors:
  assumes "sign_filter df = Inr df_filtered"
  shows "\<exists>amounts. map_column (to_numeric parse_number) (map amount df_filtered) = Inr amounts"
proof -
  have "\<not> (\<exists>x\<in>set (map amount df_filtered). \<exists>e. to_numeric parse_number x = Inl e)"
  proof
    assume "\<exists>x\<in>set (map amount df_filtered). \<exists>e. to_numeric parse_number x = Inl e"
    then obtain r e where r: "r \<in> set df_filtered"
      and e: "to_numeric parse_number (amount r) = Inl e" by auto
    from sign_filter_amounts [OF assms r] obtain a where "amount r = Some (Num a)" by blast
    with e show False by simp
  qed
  then have "\<not> (\<exists>e. map_column (to_numeric parse_number) (map amount df_filtered) = Inl e)"
    using map_column_Inl_iff [of "to_numeric parse_number" "map amount df_filtered"] by blast
  then show ?thesis
    by (cases "map_column (to_numeric parse_number) (map amount df_filtered)") auto
qed

lemma transform_data_text_amount:
  assumes "r \<in> set df" and "\<not> has_na r" and "amount r = Some (Text s)"
  shows "transform_data column_sum parse_date parse_number now df =
    ([Transform_start, Dropped_missing (length df - length (dropna df))], Inl TypeError)"
proof -
  from assms have "\<exists>r\<in>set (dropna df). \<exists>s. amount r = Some (Text s)"
    by (auto simp: dropna_def)
  then obtain e where "sign_filter (dropna df) = Inl e"
    using sign_filter_Inl_iff [of "dropna df"] by blast
  moreover from this have "e = TypeError" by (rule sign_filter_Inl_TypeError)
  ultimately show ?thesis by (simp add: transform_data_def Let_def)
qed

lemma map_column_Inl_element:
  "map_column f xs = Inl e \<Longrightarrow> \<exists>x\<in>set xs. f x = Inl e"
  by (induction xs) (auto split: sum.splits)

lemma to_datetime_Inl: "to_datetime parse_date c = Inl e \<Longrightarrow> e = ValueError"
  by (cases c) (auto split: option.splits)

lemma to_numeric_Inl: "to_numeric parse_number c = Inl e \<Longrightarrow> e = ValueError"
  by (cases "(parse_number, c)" rule: to_numeric.cases) (auto split: option.splits)

lemma normalize_types_Inl: "normalize_types parse_date parse_number rows = Inl e \<Longrightarrow> e = ValueError"
  by (auto simp: normalize_types_def split: sum.splits
      dest!: map_column_Inl_element dest: to_datetime_Inl to_numeric_Inl)

lemma normalize_types_text_amount:
  assumes "r \<in> set rows" and "amount r = Some (Text s)" and "parse_number s = None"
  shows "normalize_types parse_date parse_number rows = Inl ValueError"
proof (cases "normalize_types parse_date parse_number rows")
  case (Inl e)
  then show ?thesis by (simp add: normalize_types_Inl)
next
  case (Inr df_typed)
  then obtain amounts
    where "map_column (to_numeric parse_number) (map amount rows) = Inr amounts"
    by (auto simp: normalize_types_def split: sum.splits)
  moreover from assms have "\<exists>x\<in>set (map amount rows). \<exists>e. to_numeric parse_number x = Inl e"
    by force
  then have "\<exists>e. map_column (to_numeric parse_number) (map amount rows) = Inl e"
    by (simp only: map_column_Inl_iff)
  ultimately show ?thesis by simp
qed

lemma mock_normalize:
  "normalize_types accept_all_dates reject_all_numbers mock_filtered =
     Inr (map (\<lambda>r. set_columns r (Some 0, map_option (\<lambda>v. case v of Num a \<Rightarrow> a | Text s \<Rightarrow> 0) (amount r))) mock_filtered)"
  by (simp add: transform_defs mock_filtered_def)

lemma extract_data_missing:
  "files w p = None \<Longrightarrow>
   extract_data p w = (print (Csv_not_found p) (print (Extract_start p) w), None)"
  by (simp add: extract_data_def read_csv_def print_def)

lemma extract_data_unreadable:
  "files w p = Some (Unreadable e) \<Longrightarrow>
   extract_data p w =
     (print (if e = FileNotFoundError then Csv_not_found p else Extraction_error e)
        (print (Extract_start p) w), None)"
  by (simp add: extract_data_def read_csv_def print_def)

lemma extract_data_rows:
  "files w p = Some (Rows rows) \<Longrightarrow>
   extract_data p w = (print (Read_records (length rows)) (print (Extract_start p) w), Some rows)"
  by (simp add: extract_data_def read_csv_def print_def)

lemma main_halts_on_None:
  assumes "files w CSV_FILE = Some (Unreadable e)"
  shows "main column_sum parse_date parse_number fault w =
    print (if e = FileNotFoundError then Csv_not_found CSV_FILE else Extraction_error e)
      (print (Extract_start CSV_FILE) w)"
  using assms by (simp add: main_def extract_data_unreadable)

lemmas load_defs =
  load_data_def sqlite3_connect_def to_sql_def read_sql_query_def set_table_def close_def
  print_def

lemma load_data_No_fault:
  "load_data No_fault df p t w =
     w\<lparr>databases := (databases w)(p := (databases w p)(t \<mapsto> df)),
       stdout := stdout w @ [Load_start p, Loaded_records (length df) t,
         Verification_results (map (\<lambda>r. (summary_product_id r, total_revenue_usd r)) df)]\<rparr>"
  by (simp add: load_defs Let_def)

lemma mock_transform:
  "transform_data exact_sum accept_all_dates reject_all_numbers 0 mock_data =
     ([Transform_start, Dropped_missing 1, Dropped_non_positive 1, Transformation_complete 4],
      Inr (mock_summary 0))"
  by (simp add: transform_defs mock_data_def mock_summary_def)

lemma main_initial_world:
  "main exact_sum accept_all_dates reject_all_numbers fault initial_world =
     print Run_complete
       (load_data fault (mock_summary 0) DB_FILE TABLE_NAME
          (initial_world\<lparr>files := [CSV_FILE \<mapsto> Rows mock_data],
             stdout := [Generating_mock_data CSV_FILE, Mock_data_generated,
               Extract_start CSV_FILE, Read_records 10, Transform_start, Dropped_missing 1,
               Dropped_non_positive 1, Transformation_complete 4]\<rparr>))"
proof -
  have g: "generate_mock_data initial_world =
      initial_world\<lparr>files := [CSV_FILE \<mapsto> Rows mock_data],
        stdout := [Generating_mock_data CSV_FILE, Mock_data_generated]\<rparr>"
    by (simp add: generate_mock_data_def print_def Let_def initial_world_def)
  have e: "extract_data CSV_FILE (generate_mock_data initial_world) =
      (initial_world\<lparr>files := [CSV_FILE \<mapsto> Rows mock_data],
        stdout := [Generating_mock_data CSV_FILE, Mock_data_generated,
          Extract_start CSV_FILE, Read_records 10]\<rparr>, Some mock_data)"
    unfolding g
    by (simp add: extract_data_def read_csv_def print_def Let_def initial_world_def
        mock_data_def)
  have f: "files initial_world CSV_FILE = None" by (simp add: initial_world_def)
  have c: "clock (initial_world\<lparr>files := [CSV_FILE \<mapsto> Rows mock_data],
        stdout := [Generating_mock_data CSV_FILE, Mock_data_generated,
          Extract_start CSV_FILE, Read_records 10]\<rparr>) = 0"
    by (simp add: initial_world_def)
  show ?thesis
    by (simp add: main_def f e c Let_def mock_transform)
qed

section \<open>The claims\<close>




text \<open>
  Claim C2, as the code has it. The product ids of the output are pairwise distinct and
  they are exactly the product ids of the rows of \<open>df_filtered\<close>, which are the rows
  with no missing cell and an amount above zero.
\<close>

theorem output_products_complete:
  assumes "snd (transform_data column_sum parse_date parse_number now df) = Inr out"
    and "sign_filter (dropna df) = Inr df_filtered"
  shows "distinct (map summary_product_id out)
    \<and> Some ` set (map summary_product_id out) = product_id ` set df_filtered
    \<and> df_filtered = filter (\<lambda>r. \<not> has_na r \<and> (\<exists>a. amount r = Some (Num a) \<and> 0 < a)) df"
proof -
  from assms obtain df_typed :: "'a clean_transaction list"
    where typed: "normalize_types parse_date parse_number df_filtered = Inr df_typed"
      and out: "out = map (stamp now) (groupby_sum column_sum df_typed)"
    by (auto simp: transform_data_Inr_iff)
  have ids: "map summary_product_id out = map fst (groupby_sum column_sum df_typed)"
    unfolding out by (rule map_stamp_product_id)
  have d: "distinct (map summary_product_id out)"
    by (simp only: ids distinct_groupby_sum)
  have same: "product_id ` set df_typed = product_id ` set df_filtered"
    using normalize_types_product_id [OF typed] by (metis set_map)
  have "set df_filtered \<subseteq> set (dropna df)"
    using assms(2) by (rule sign_filter_subset)
  then have "None \<notin> product_id ` set df_filtered"
    by (auto simp: dropna_def has_na_def)
  then have "Some ` {k. Some k \<in> product_id ` set df_filtered} = product_id ` set df_filtered"
    by (auto simp: image_iff) (metis not_None_eq)
  then have s: "Some ` set (map summary_product_id out) = product_id ` set df_filtered"
    by (simp only: ids set_map keys_groupby_sum same)
  from d s filtered_rows [OF assms(2)] show ?thesis by blast
qed

text \<open>
  On the mock data: four distinct products, \<open>P104\<close> absent.
\<close>

theorem output_products_complete_witness:
  "snd (transform_data exact_sum accept_all_dates reject_all_numbers 0 mock_data)
     = Inr (mock_summary 0)
   \<and> sign_filter (dropna mock_data) = Inr mock_filtered
   \<and> distinct (map summary_product_id (mock_summary 0))
   \<and> Some ` set (map summary_product_id (mock_summary 0)) = product_id ` set mock_filtered
   \<and> mock_filtered =
       filter (\<lambda>r. \<not> has_na r \<and> (\<exists>a. amount r = Some (Num a) \<and> 0 < a)) mock_data"
  using output_products_complete [OF mock_run mock_sign_filter] mock_run mock_sign_filter
  by blast

text \<open>
  Claim C2 as the specification words it fails: a product whose only row has the amount
  5 and no category is not in the output.
\<close>

theorem output_products_complete_counterexample:
  "snd (transform_data int64_sum accept_all_dates reject_all_numbers 0 [uncategorised_row])
     = Inr []
   \<and> product_id uncategorised_row = Some ''P101''
   \<and> amount uncategorised_row = Some (Num 5)"
  by (simp add: transform_defs uncategorised_row_def)

text \<open>
  Claim C3, as the code has it. \<open>dropna\<close> is called without a column subset: the first
  step drops the rows with a missing value in any of the five columns, not only in
  \<open>amount\<close>. When the comparison of the sign filter does not raise, the rows that
  pass both filters, the rows with a missing cell and the complete rows with an
  amount of zero or less add up to the input, and the two counts that
  \<open>transform_data\<close> prints are these numbers of dropped rows.
\<close>

theorem null_and_sign_filter_counts:
  assumes "sign_filter (dropna df) = Inr df_filtered"
  shows "dropna df =
      filter (\<lambda>r. transaction_id r \<noteq> None \<and> product_id r \<noteq> None \<and> date r \<noteq> None
                  \<and> amount r \<noteq> None \<and> category r \<noteq> None) df
    \<and> length df_filtered + length (filter has_na df)
        + length (filter (\<lambda>r. \<not> has_na r \<and> (\<exists>a. amount r = Some (Num a) \<and> a \<le> 0)) df)
      = length df
    \<and> fst (transform_data column_sum parse_date parse_number now df) ! 1
        = Dropped_missing (length (filter has_na df))
    \<and> fst (transform_data column_sum parse_date parse_number now df) ! 2
        = Dropped_non_positive
            (length (filter (\<lambda>r. \<not> has_na r \<and> (\<exists>a. amount r = Some (Num a) \<and> a \<le> 0)) df))"
proof -
  have d: "dropna df =
      filter (\<lambda>r. transaction_id r \<noteq> None \<and> product_id r \<noteq> None \<and> date r \<noteq> None
                  \<and> amount r \<noteq> None \<and> category r \<noteq> None) df"
    by (simp add: dropna_def has_na_def)
  have f: "df_filtered = filter (\<lambda>r. gt_zero (amount r) = Inr True) (dropna df)"
    using assms by (rule sign_filter_Inr)
  have no_text: "amount r \<noteq> Some (Text s)" if "r \<in> set (dropna df)" for r s
    using sign_filter_Inr_no_text [OF assms that] .
  have split1: "length (dropna df) + length (filter has_na df) = length df"
    using sum_length_filter_compl [of "\<lambda>r. \<not> has_na r" df] by (simp add: dropna_def)
  have "filter (\<lambda>r. \<not> gt_zero (amount r) = Inr True) (dropna df)
      = filter (\<lambda>r. \<exists>a. amount r = Some (Num a) \<and> a \<le> 0) (dropna df)"
  proof (rule filter_cong [OF refl])
    fix r assume r: "r \<in> set (dropna df)"
    then have "amount r \<noteq> None" by (simp add: dropna_def has_na_def)
    moreover have "\<forall>s. amount r \<noteq> Some (Text s)" using no_text [OF r] by blast
    ultimately obtain a where "amount r = Some (Num a)"
      by (cases "amount r") (auto, metis amount_value.exhaust)
    then show "(\<not> gt_zero (amount r) = Inr True) = (\<exists>a. amount r = Some (Num a) \<and> a \<le> 0)"
      by auto
  qed
  also have "\<dots> = filter (\<lambda>r. \<not> has_na r \<and> (\<exists>a. amount r = Some (Num a) \<and> a \<le> 0)) df"
    by (simp add: dropna_def conj_commute)
  finally have compl: "filter (\<lambda>r. \<not> gt_zero (amount r) = Inr True) (dropna df)
      = filter (\<lambda>r. \<not> has_na r \<and> (\<exists>a. amount r = Some (Num a) \<and> a \<le> 0)) df" .
  have split2: "length df_filtered
      + length (filter (\<lambda>r. \<not> has_na r \<and> (\<exists>a. amount r = Some (Num a) \<and> a \<le> 0)) df)
      = length (dropna df)"
    using sum_length_filter_compl [of "\<lambda>r. gt_zero (amount r) = Inr True" "dropna df"]
    by (simp add: f compl)
  from split1 split2 have count: "length df_filtered + length (filter has_na df)
        + length (filter (\<lambda>r. \<not> has_na r \<and> (\<exists>a. amount r = Some (Num a) \<and> a \<le> 0)) df)
      = length df" by simp
  have m1: "fst (transform_data column_sum parse_date parse_number now df) ! 1
        = Dropped_missing (length (filter has_na df))"
  proof -
    from split1 have "length df - length (dropna df) = length (filter has_na df)" by arith
    then show ?thesis by (simp add: transform_data_def Let_def assms split: sum.splits)
  qed
  have m2: "fst (transform_data column_sum parse_date parse_number now df) ! 2
        = Dropped_non_positive
            (length (filter (\<lambda>r. \<not> has_na r \<and> (\<exists>a. amount r = Some (Num a) \<and> a \<le> 0)) df))"
  proof -
    from split2 have "length (dropna df) - length df_filtered =
        length (filter (\<lambda>r. \<not> has_na r \<and> (\<exists>a. amount r = Some (Num a) \<and> a \<le> 0)) df)"
      by arith
    then show ?thesis by (simp add: transform_data_def Let_def assms split: sum.splits)
  qed
  from d count m1 m2 show ?thesis by blast
qed

text \<open>
  On the mock data: 8 survivors, 1 row with a missing cell, 1 refund, 10 rows.
\<close>

theorem null_and_sign_filter_counts_witness:
  "sign_filter (dropna mock_data) = Inr mock_filtered
   \<and> length mock_filtered + length (filter has_na mock_data)
        + length (filter (\<lambda>r. \<not> has_na r \<and> (\<exists>a. amount r = Some (Num a) \<and> a \<le> 0)) mock_data)
      = length mock_data
   \<and> fst (transform_data exact_sum accept_all_dates reject_all_numbers 0 mock_data) ! 1
        = Dropped_missing (length (filter has_na mock_data))"
  using null_and_sign_filter_counts [OF mock_sign_filter, of exact_sum accept_all_dates
      reject_all_numbers 0]
    mock_sign_filter
  by blast

text \<open>
  Claim C3 as the specification words it fails: a row that has its amount and lacks
  only its category is dropped by the first step.
\<close>

theorem null_and_sign_filter_counterexample:
  "amount uncategorised_row = Some (Num 5) \<and> dropna [uncategorised_row] = []"
  by (simp add: uncategorised_row_def dropna_def has_na_def)

text \<open>
  Claim C4, as the code has it. \<open>extract_data\<close> raises nothing: when the path does not
  exist it prints that the file was not found and returns \<open>None\<close>; on any other
  failure of \<open>read_csv\<close> it prints the exception and returns \<open>None\<close>; on success it returns
  the rows of the file in file order. When the input file cannot be read, \<open>main\<close>
  returns right after the extractor: nothing more is printed and no database changes.
\<close>

theorem extract_data_outcomes:
  "(files w p = None \<longrightarrow>
      extract_data p w = (print (Csv_not_found p) (print (Extract_start p) w), None))
   \<and> (files w p = Some (Unreadable e) \<and> e \<noteq> FileNotFoundError \<longrightarrow>
      extract_data p w = (print (Extraction_error e) (print (Extract_start p) w), None))
   \<and> (files w p = Some (Rows rows) \<longrightarrow>
      extract_data p w =
        (print (Read_records (length rows)) (print (Extract_start p) w), Some rows))
   \<and> (files w CSV_FILE = Some (Unreadable e) \<longrightarrow>
      main column_sum parse_date parse_number fault w = fst (extract_data CSV_FILE w)
      \<and> databases (main column_sum parse_date parse_number fault w) = databases w
      \<and> stdout (main column_sum parse_date parse_number fault w) =
          stdout w @ [Extract_start CSV_FILE,
            if e = FileNotFoundError then Csv_not_found CSV_FILE else Extraction_error e])"
  using extract_data_missing [of w p] extract_data_unreadable [of w p e]
    extract_data_rows [of w p rows] extract_data_unreadable [of w CSV_FILE e]
    main_halts_on_None [of w e column_sum parse_date parse_number fault]
  by (auto simp: print_def)

text \<open>
  A path that does not exist, a file that does not parse, and the generated mock file.
\<close>

theorem extract_data_outcomes_witness:
  "files (initial_world :: string world) ''missing.csv'' = None
   \<and> extract_data ''missing.csv'' (initial_world :: string world) =
       (print (Csv_not_found ''missing.csv'') (print (Extract_start ''missing.csv'') initial_world),
        None)
   \<and> files bad_csv_world CSV_FILE = Some (Unreadable ParserError)
   \<and> extract_data CSV_FILE bad_csv_world =
       (print (Extraction_error ParserError) (print (Extract_start CSV_FILE) bad_csv_world), None)
   \<and> stdout (main exact_sum accept_all_dates reject_all_numbers No_fault bad_csv_world) =
       [Extract_start CSV_FILE, Extraction_error ParserError]
   \<and> files (generate_mock_data initial_world) CSV_FILE = Some (Rows mock_data)
   \<and> snd (extract_data CSV_FILE (generate_mock_data initial_world)) = Some mock_data"
proof -
  have a: "files (initial_world :: string world) ''missing.csv'' = None"
    by (simp add: initial_world_def)
  have b: "files bad_csv_world CSV_FILE = Some (Unreadable ParserError)"
    by (simp add: bad_csv_world_def)
  have c: "files (generate_mock_data initial_world) CSV_FILE = Some (Rows mock_data)"
    by (simp add: generate_mock_data_def print_def Let_def)
  have s: "stdout bad_csv_world = []"
    by (simp add: bad_csv_world_def initial_world_def)
  from extract_data_outcomes [where w = "initial_world :: string world" and p = "''missing.csv''"] a
  have 1: "extract_data ''missing.csv'' (initial_world :: string world) =
       (print (Csv_not_found ''missing.csv'') (print (Extract_start ''missing.csv'') initial_world),
        None)" by blast
  from extract_data_outcomes [where w = bad_csv_world and p = CSV_FILE and e = ParserError
      and parse_date = accept_all_dates and parse_number = reject_all_numbers and fault = No_fault] b
  have 2: "extract_data CSV_FILE bad_csv_world =
       (print (Extraction_error ParserError) (print (Extract_start CSV_FILE) bad_csv_world), None)"
    and 3: "stdout (main exact_sum accept_all_dates reject_all_numbers No_fault bad_csv_world) =
       stdout bad_csv_world @ [Extract_start CSV_FILE, Extraction_error ParserError]"
    by (simp_all add: print_def)
  from extract_data_outcomes [where w = "generate_mock_data initial_world" and p = CSV_FILE
      and rows = mock_data] c
  have 4: "snd (extract_data CSV_FILE (generate_mock_data initial_world)) = Some mock_data"
    by simp
  from a b c 1 2 3 4 s show ?thesis by simp
qed

text \<open>
  Claim C4 as the specification words it fails: the caller receives the same value
  \<open>None\<close> for a missing file and for a file that does not parse, and no exception.
\<close>

theorem extract_data_outcomes_counterexample:
  "snd (extract_data ''missing.csv'' (initial_world :: string world)) = None
   \<and> snd (extract_data CSV_FILE bad_csv_world) = None"
  by (simp add: extract_data_def read_csv_def print_def initial_world_def bad_csv_world_def)

text \<open>
  Claim C5, as the code has it. \<open>load_data\<close> catches every exception itself, prints it
  and returns: its caller sees no failure. When \<open>sqlite3.connect\<close> raises, no database
  changes. When \<open>to_sql\<close> raises, the table holds what the library left. When the
  verification query raises, the table already holds the new rows.
\<close>

theorem load_failure:
  "load_data (Connect_fails e) df p t w = print (Load_error e) (print (Load_start p) w)
   \<and> databases (load_data (Connect_fails e) df p t w) = databases w
   \<and> stdout (load_data (To_sql_fails e left) df p t w) = stdout w @ [Load_start p, Load_error e]
   \<and> databases (load_data (To_sql_fails e left) df p t w) p t = left
   \<and> stdout (load_data (Read_sql_fails e) df p t w) =
       stdout w @ [Load_start p, Loaded_records (length df) t, Load_error e]
   \<and> databases (load_data (Read_sql_fails e) df p t w) p t = Some df"
  by (simp add: load_defs Let_def)

text \<open>
  Claim C5 as the specification words it fails: on a machine where the database
  cannot be opened, \<open>main\<close> prints the load error and then that the run is complete;
  and a load that ends in the handler because the verification query raised has
  replaced the table.
\<close>

theorem load_failure_counterexample:
  "stdout (main exact_sum accept_all_dates reject_all_numbers (Connect_fails OperationalError) initial_world)
     = [Generating_mock_data CSV_FILE, Mock_data_generated, Extract_start CSV_FILE,
        Read_records 10, Transform_start, Dropped_missing 1, Dropped_non_positive 1,
        Transformation_complete 4, Load_start DB_FILE, Load_error OperationalError,
        Run_complete]
   \<and> databases initial_world DB_FILE TABLE_NAME = None
   \<and> databases (load_data (Read_sql_fails DatabaseError) (mock_summary 0) DB_FILE TABLE_NAME
        initial_world) DB_FILE TABLE_NAME = Some (mock_summary 0)"
  by (simp add: main_initial_world) (simp add: load_defs Let_def initial_world_def)

text \<open>
  Claim C6. Type normalization raises \<open>ValueError\<close> whenever a row handed to it has
  a text amount that does not read as a number, and when it succeeds it returns as many
  rows as it was given, in the same order, with the cells of the other columns
  unchanged. Inside \<open>transform_data\<close> no such row reaches it: the comparison of the
  sign filter raises \<open>TypeError\<close> on a text amount (lemma
  \<open>transform_data_text_amount\<close>).
\<close>

theorem type_normalization:
  "(r \<in> set rows \<and> amount r = Some (Text s) \<and> parse_number s = None \<longrightarrow>
      normalize_types parse_date parse_number rows = Inl ValueError)
   \<and> (normalize_types parse_date parse_number rows = Inr df_typed \<longrightarrow>
        length df_typed = length rows
        \<and> map transaction_id df_typed = map transaction_id rows
        \<and> map product_id df_typed = map product_id rows
        \<and> map category df_typed = map category rows)"
  using normalize_types_text_amount [of r rows s parse_number parse_date]
    normalize_types_length [of parse_date parse_number rows df_typed]
    normalize_types_product_id [of parse_date parse_number rows df_typed]
    normalize_types_rows [of parse_date parse_number rows df_typed]
  by blast

text \<open>
  A row with the amount \<open>abc\<close> makes type normalization raise; the survivors of the
  mock data are all converted.
\<close>

theorem type_normalization_witness:
  "text_amount_row \<in> set [text_amount_row]
   \<and> amount text_amount_row = Some (Text ''abc'')
   \<and> reject_all_numbers ''abc'' = None
   \<and> normalize_types accept_all_dates reject_all_numbers [text_amount_row] = Inl ValueError
   \<and> (\<exists>df_typed. normalize_types accept_all_dates reject_all_numbers mock_filtered = Inr df_typed
         \<and> length df_typed = length mock_filtered
         \<and> map product_id df_typed = map product_id mock_filtered)"
proof -
  have a: "text_amount_row \<in> set [text_amount_row]
      \<and> amount text_amount_row = Some (Text ''abc'') \<and> reject_all_numbers ''abc'' = None"
    by (simp add: text_amount_row_def reject_all_numbers_def)
  from type_normalization [where r = text_amount_row and rows = "[text_amount_row]"
      and s = "''abc''" and parse_date = accept_all_dates
      and parse_number = reject_all_numbers]
    a
  have t: "normalize_types accept_all_dates reject_all_numbers [text_amount_row] = Inl ValueError"
    by blast
  from type_normalization [where parse_number = reject_all_numbers
      and parse_date = accept_all_dates and rows = mock_filtered
      and df_typed = "map (\<lambda>r. set_columns r (Some 0, map_option (\<lambda>v. case v of Num a \<Rightarrow> a | Text s \<Rightarrow> 0) (amount r))) mock_filtered"]
    mock_normalize
  have "\<exists>df_typed. normalize_types accept_all_dates reject_all_numbers mock_filtered = Inr df_typed
         \<and> length df_typed = length mock_filtered
         \<and> map product_id df_typed = map product_id mock_filtered" by blast
  with a t show ?thesis by blast
qed

text \<open>
  Claim C7. A load that succeeds sets the table to the given rows whatever it held
  before and changes no other table, so loading the same summary twice leaves the
  databases as loading it once does.
\<close>

theorem load_replaces:
  "databases (load_data No_fault df p t w) = (databases w)(p := (databases w p)(t \<mapsto> df))
   \<and> databases (load_data No_fault df p t (load_data No_fault df p t w))
       = databases (load_data No_fault df p t w)"
  by (simp add: load_data_No_fault)

text \<open>
  Claim C8. When every row has a missing amount or an amount of zero or less,
  \<open>transform_data\<close> returns the empty aggregate and raises nothing.
\<close>

theorem empty_after_filtering:
  assumes "\<forall>r\<in>set df. amount r = None \<or> (\<exists>a. amount r = Some (Num a) \<and> a \<le> 0)"
  shows "snd (transform_data column_sum parse_date parse_number now df) = Inr []"
proof -
  have no_text: "\<not> (\<exists>r\<in>set (dropna df). \<exists>s. amount r = Some (Text s))"
    using assms by (auto simp: dropna_def)
  then have "\<not> (\<exists>e. sign_filter (dropna df) = Inl e)"
    by (simp add: sign_filter_Inl_iff)
  then obtain df_filtered where f: "sign_filter (dropna df) = Inr df_filtered"
    by (cases "sign_filter (dropna df)") auto
  have "df_filtered = filter (\<lambda>r. gt_zero (amount r) = Inr True) (dropna df)"
    using f by (rule sign_filter_Inr)
  also have "\<dots> = []"
    using assms by (auto simp: filter_empty_conv gt_zero_True_iff dropna_def)
  finally have "df_filtered = []" .
  with f show ?thesis
    by (simp add: transform_data_Inr_iff normalize_types_Nil groupby_sum_Nil)
qed

text \<open>
  A refund, a missing amount and a zero amount: the aggregate is empty.
\<close>

theorem empty_after_filtering_witness:
  "list_all (\<lambda>r. amount r = None \<or> (\<exists>a. amount r = Some (Num a) \<and> a \<le> 0)) refund_rows
   \<and> snd (transform_data exact_sum accept_all_dates reject_all_numbers 0 refund_rows) = Inr []"
proof -
  have h: "\<forall>r\<in>set refund_rows. amount r = None \<or> (\<exists>a. amount r = Some (Num a) \<and> a \<le> 0)"
    by (simp add: refund_rows_def mock_row_def)
  from empty_after_filtering [OF h] h show ?thesis by (simp add: list_all_iff)
qed

text \<open>
  Claim C9 fails on the code. \<open>conn.close()\<close> is the last statement inside the \<open>try\<close>
  block: when \<open>to_sql\<close> or the verification query raises, the handler prints and the
  function returns with the connection still open. Only the path without an exception
  closes it.
\<close>

theorem load_data_leaks_connection:
  "open_connections
     (load_data (Read_sql_fails DatabaseError) (mock_summary 0) DB_FILE ''order'' initial_world)
     = [DB_FILE]
   \<and> open_connections
     (load_data (To_sql_fails OperationalError None) (mock_summary 0) DB_FILE TABLE_NAME
        initial_world)
     = [DB_FILE]
   \<and> open_connections (load_data No_fault (mock_summary 0) DB_FILE TABLE_NAME initial_world) = []"
  by (simp add: load_defs Let_def initial_world_def)

text \<open>
  Claim C10, as the code has it. The output rows are in strictly ascending order of
  \<open>product_id\<close> in the order of the column's type: lexicographic for text ids, numeric
  for integer ids. The order of the product ids does not depend on the time of the
  run, and it is not the order of first appearance: \<open>P2\<close> before \<open>P10\<close> in the input
  comes out as \<open>P10\<close> before \<open>P2\<close>, and the integers 10 before 2 come out as 2 before
  10.
\<close>

theorem output_order:
  "(snd (transform_data column_sum parse_date parse_number now df) = Inr out \<longrightarrow>
      sorted_wrt (<) (map summary_product_id out))
   \<and> map_sum id (map summary_product_id)
        (snd (transform_data column_sum parse_date parse_number now df))
       = map_sum id (map summary_product_id)
          (snd (transform_data column_sum parse_date parse_number now' df))
   \<and> map_sum id (map summary_product_id)
        (snd (transform_data int64_sum accept_all_dates reject_all_numbers now unsorted_rows))
       = Inr [''P10'', ''P2'']
   \<and> map_sum id (map summary_product_id)
        (snd (transform_data int64_sum accept_all_dates reject_all_numbers now integer_id_rows))
       = Inr [2, 10]"
proof -
  have s: "sorted_wrt (<) (map summary_product_id out)"
    if "snd (transform_data column_sum parse_date parse_number now df) = Inr out"
  proof -
    from that obtain df_typed :: "'a clean_transaction list"
      where "out = map (stamp now) (groupby_sum column_sum df_typed)"
      by (auto simp: transform_data_Inr_iff)
    then have "map summary_product_id out = map fst (groupby_sum column_sum df_typed)"
      by (simp only: map_stamp_product_id)
    then show ?thesis by (simp only: sorted_groupby_sum)
  qed
  have d: "map_sum id (map summary_product_id)
        (snd (transform_data column_sum parse_date parse_number t df))
      = (case sign_filter (dropna df) of Inl e \<Rightarrow> Inl e
         | Inr df_filtered \<Rightarrow>
            (case normalize_types parse_date parse_number df_filtered of Inl e \<Rightarrow> Inl e
             | Inr df_typed \<Rightarrow> Inr (map fst (groupby_sum column_sum df_typed))))" for t
    by (simp add: transform_data_def Let_def stamp_def comp_def split: sum.splits)
  have e: "map_sum id (map summary_product_id)
        (snd (transform_data int64_sum accept_all_dates reject_all_numbers now unsorted_rows))
       = Inr [''P10'', ''P2'']"
    by (simp add: transform_defs unsorted_rows_def)
  have f: "map_sum id (map summary_product_id)
        (snd (transform_data int64_sum accept_all_dates reject_all_numbers now integer_id_rows))
       = Inr [2, 10]"
    by (simp add: transform_defs integer_id_rows_def)
  from s d [of now] d [of now'] e f show ?thesis by simp
qed

text \<open>
  On the mock data the product ids come out in ascending order.
\<close>

theorem output_order_witness:
  "snd (transform_data exact_sum accept_all_dates reject_all_numbers 0 mock_data)
     = Inr (mock_summary 0)
   \<and> sorted_wrt (<) (map summary_product_id (mock_summary 0))"
  using output_order [of exact_sum accept_all_dates reject_all_numbers 0 mock_data
      "mock_summary 0" 0]
    mock_run
  by blast

text \<open>
  Claim C10 as the specification words it fails: the integer ids 10 and 2 come out as
  2 before 10, and as text \<open>10\<close> is before \<open>2\<close>.
\<close>

theorem output_order_counterexample:
  "map product_id integer_id_rows = [Some 10, Some 2]
   \<and> map_sum id (map summary_product_id)
        (snd (transform_data int64_sum accept_all_dates reject_all_numbers 0 integer_id_rows))
       = Inr [2, 10]
   \<and> ''10'' < ''2''"
  by (simp add: transform_defs integer_id_rows_def)

end
